theory Spec2Isabelle
  imports Main "HOL-Library.Word"
begin

section \<open>Errors and panics\<close>

text \<open>
  A Go function of the server returns an \<open>error\<close> value or panics. Both are values here.
  \<open>Errorf msg\<close> is the error built by \<^verbatim>\<open>fmt.Errorf\<close> with the formatted message,
  \<open>RandError\<close> the error of \<^verbatim>\<open>rand.Read\<close>, \<open>AdbcError\<close> an error returned by the backend
  driver (passed on as it is). The remaining constructors are not error returns: a run-time
  panic, and a call that never returns because it waits on a channel nobody reads.
\<close>

datatype panic = NilPointerDereference | IndexOutOfRange | TypeAssertion | RecordValidation

datatype error =
    Errorf string
  | RandError string
  | AdbcError string
  | Panic panic
  | Blocked

section \<open>Arrow data\<close>

datatype data_type = Utf8 | Int64 | Float64 | ListOf data_type | StructOf "data_type list"

type_synonym schema = "(string \<times> data_type) list"

text \<open>
  Arrow arrays, as far as the server looks into them. Every array is a window on shared
  data: its slice offset, its length, and the data: the values of a string array, the
  offsets buffer (32-bit in Go) and the child values of a list array, the children of a
  struct array and, for query results, numeric values. Validity bitmaps are not modelled.
\<close>

datatype arrow_array =
    StringArray nat nat "string list"
  | Int64Array nat nat "int list"
  | Float64Array nat nat "int list"
  | ListArray nat nat "int list" arrow_array
  | StructArray nat nat "arrow_array list"

fun array_offset :: "arrow_array \<Rightarrow> nat" where
  "array_offset (StringArray off n xs) = off"
| "array_offset (Int64Array off n xs) = off"
| "array_offset (Float64Array off n xs) = off"
| "array_offset (ListArray off n offs vs) = off"
| "array_offset (StructArray off n fs) = off"

fun array_len :: "arrow_array \<Rightarrow> int" where
  "array_len (StringArray off n xs) = int n"
| "array_len (Int64Array off n xs) = int n"
| "array_len (Float64Array off n xs) = int n"
| "array_len (ListArray off n offs vs) = int n"
| "array_len (StructArray off n fs) = int n"

fun array_type :: "arrow_array \<Rightarrow> data_type" where
  "array_type (StringArray off n xs) = Utf8"
| "array_type (Int64Array off n xs) = Int64"
| "array_type (Float64Array off n xs) = Float64"
| "array_type (ListArray off n offs vs) = ListOf (array_type vs)"
| "array_type (StructArray off n fs) = StructOf (map array_type fs)"

fun set_window :: "arrow_array \<Rightarrow> nat \<Rightarrow> nat \<Rightarrow> arrow_array" where
  "set_window (StringArray off n xs) off' n' = StringArray off' n' xs"
| "set_window (Int64Array off n xs) off' n' = Int64Array off' n' xs"
| "set_window (Float64Array off n xs) off' n' = Float64Array off' n' xs"
| "set_window (ListArray off n offs vs) off' n' = ListArray off' n' offs vs"
| "set_window (StructArray off n fs) off' n' = StructArray off' n' fs"

text \<open>
  \<^verbatim>\<open>array.NewSliceData(data, i, j)\<close> of the Arrow library: the same data seen through the
  window that starts \<open>i\<close> further and has \<open>j - i\<close> elements; it panics when the bounds
  leave the array. The string array made by a builder's \<^verbatim>\<open>NewArray\<close> is unsliced.
\<close>

definition NewSliceData :: "arrow_array \<Rightarrow> nat \<Rightarrow> nat \<Rightarrow> error + arrow_array" where
  "NewSliceData a i j =
     (if int j > array_len a \<or> i > j then Inl (Panic IndexOutOfRange)
      else Inr (set_window a (array_offset a + i) (j - i)))"

definition NewArray :: "string list \<Rightarrow> arrow_array" where
  "NewArray xs = StringArray 0 (length xs) xs"

record record_batch =
  batch_schema :: schema
  columns :: "arrow_array list"
  num_rows :: int

text \<open>
  \<^verbatim>\<open>array.NewRecordBatch(schema, cols, nrows)\<close> (and its older name \<^verbatim>\<open>array.NewRecord\<close>)
  of the Arrow library: the batch keeps \<open>nrows\<close> as its row count, takes the length of the
  first column when \<open>nrows\<close> is negative, and panics when the number of columns differs from
  the schema's, a column is shorter than the row count, or a column's type is not the
  field's.
\<close>

definition validate :: "schema \<Rightarrow> arrow_array list \<Rightarrow> int \<Rightarrow> bool" where
  "validate sch cols rows =
     ((rows = 0 \<and> cols = []) \<or>
      (length cols = length sch \<and>
       list_all (\<lambda>(f, arr). \<not> array_len arr < rows \<and> snd f = array_type arr) (zip sch cols)))"

definition NewRecordBatch :: "schema \<Rightarrow> arrow_array list \<Rightarrow> int \<Rightarrow> error + record_batch" where
  "NewRecordBatch sch cols nrows =
     (let rows = (if nrows < 0 then (case cols of [] \<Rightarrow> 0 | c # _ \<Rightarrow> array_len c) else nrows)
      in if validate sch cols rows
         then Inr \<lparr>batch_schema = sch, columns = cols, num_rows = rows\<rparr>
         else Inl (Panic RecordValidation))"

text \<open>The protocol's fixed schemas (\<^verbatim>\<open>schema_ref.Catalogs\<close>, \<^verbatim>\<open>DBSchemas\<close>, \<^verbatim>\<open>Tables\<close>).\<close>

definition Catalogs :: schema where
  "Catalogs = [(''catalog_name'', Utf8)]"

definition DBSchemas :: schema where
  "DBSchemas = [(''catalog_name'', Utf8), (''db_schema_name'', Utf8)]"

definition Tables :: schema where
  "Tables = [(''catalog_name'', Utf8), (''db_schema_name'', Utf8),
             (''table_name'', Utf8), (''table_type'', Utf8)]"

section \<open>The backend driver\<close>

text \<open>
  The ADBC database is an external collaborator. One value of \<open>database\<close> holds what the
  driver answers to each call the server can make during one request: \<open>None\<close> is success
  for the calls that return only an error. A record reader is its schema and the batches
  that \<^verbatim>\<open>Next\<close> yields in order before it reports exhaustion.
\<close>

record reader =
  reader_schema :: schema
  reader_batches :: "record_batch list"

datatype object_depth = ObjectDepthCatalogs | ObjectDepthDBSchemas | ObjectDepthTables

record get_objects_args =
  catalog :: "string option"
  db_schema :: "string option"
  table_name :: "string option"
  table_types :: "string list"

record database =
  open_result :: "string option"
  new_statement_result :: "string option"
  set_sql_query_result :: "string \<Rightarrow> string option"
  execute_query_result :: "string \<Rightarrow> string + reader"
  get_objects_result :: "object_depth \<Rightarrow> get_objects_args \<Rightarrow> string + reader"

text \<open>Every call made to the backend is recorded, in order, whether it succeeds or fails.\<close>

datatype event =
    DbOpen
  | ConnClose
  | ConnNewStatement
  | StmtClose
  | StmtSetSqlQuery string
  | StmtExecuteQuery string
  | ConnGetObjects object_depth get_objects_args
  | ReaderSchema
  | ReaderNext
  | ReaderRelease

section \<open>The server\<close>

text \<open>
  \<^verbatim>\<open>DummyFlightSQLServer\<close>: the database pointer (\<open>None\<close> is \<^verbatim>\<open>nil\<close>) and the map from
  statement handle to query text. The map is the one made by the constructor, never nil.
\<close>

record server =
  db :: "database option"
  queries :: "string \<rightharpoonup> string"

text \<open>\<^verbatim>\<open>hex.EncodeToString\<close>: two lower-case hexadecimal digits per byte.\<close>

definition hextable :: string where
  "hextable = ''0123456789abcdef''"

definition EncodeToString :: "8 word list \<Rightarrow> string" where
  "EncodeToString src =
     concat (map (\<lambda>v. [hextable ! (unat v div 16), hextable ! (unat v mod 16)]) src)"

text \<open>\<^verbatim>\<open>fmt.Sprintf("SELECT * FROM (%s) WHERE 1=0", q)\<close>.\<close>

definition schemaQuery :: "string \<Rightarrow> string" where
  "schemaQuery q = ''SELECT * FROM ('' @ q @ '') WHERE 1=0''"

text \<open>
  What a describe call returns: the ticket, which carries the statement handle (the
  protocol library's ticket encoding is taken as the identity), and the probed schema.
\<close>

record flight_info =
  ticket :: string
  info_schema :: schema

text \<open>
  \<^verbatim>\<open>GetFlightInfoStatement\<close>. The second argument is the outcome of \<^verbatim>\<open>rand.Read\<close> on the
  16-byte buffer: an error, or the bytes read. The result is the returned value or error,
  the server afterwards, and the backend calls made. Deferred calls run at every return
  after the \<^verbatim>\<open>defer\<close> statement, last deferred first.
\<close>

definition GetFlightInfoStatement ::
  "server \<Rightarrow> string + 8 word list \<Rightarrow> string \<Rightarrow> (error + flight_info) \<times> server \<times> event list" where
  "GetFlightInfoStatement s rnd query =
     (case db s of
        None \<Rightarrow> (Inl (Errorf ''database is not initialized''), s, [])
      | Some d \<Rightarrow>
        (case rnd of
           Inl err \<Rightarrow> (Inl (RandError err), s, [])
         | Inr handleBytes \<Rightarrow>
           let handle = EncodeToString handleBytes;
               s' = s\<lparr>queries := (queries s)(handle \<mapsto> query)\<rparr>
           in (case open_result d of
                 Some err \<Rightarrow> (Inl (AdbcError err), s', [DbOpen])
               | None \<Rightarrow>
                 (case new_statement_result d of
                    Some err \<Rightarrow> (Inl (AdbcError err), s', [DbOpen, ConnNewStatement, ConnClose])
                  | None \<Rightarrow>
                    (case set_sql_query_result d (schemaQuery query) of
                       Some err \<Rightarrow>
                         (Inl (AdbcError err), s',
                          [DbOpen, ConnNewStatement, StmtSetSqlQuery (schemaQuery query),
                           StmtClose, ConnClose])
                     | None \<Rightarrow>
                       (case execute_query_result d (schemaQuery query) of
                          Inl err \<Rightarrow>
                            (Inl (AdbcError err), s',
                             [DbOpen, ConnNewStatement, StmtSetSqlQuery (schemaQuery query),
                              StmtExecuteQuery (schemaQuery query), StmtClose, ConnClose])
                        | Inr rdr \<Rightarrow>
                            (Inr \<lparr>ticket = handle, info_schema = reader_schema rdr\<rparr>, s',
                             [DbOpen, ConnNewStatement, StmtSetSqlQuery (schemaQuery query),
                              StmtExecuteQuery (schemaQuery query), ReaderSchema,
                              ReaderRelease, StmtClose, ConnClose])))))))"

text \<open>\<^verbatim>\<open>GetSchemaStatement\<close>: the same probe, with no handle.\<close>

definition GetSchemaStatement ::
  "server \<Rightarrow> string \<Rightarrow> (error + schema) \<times> server \<times> event list" where
  "GetSchemaStatement s query =
     (case db s of
        None \<Rightarrow> (Inl (Errorf ''database is not initialized''), s, [])
      | Some d \<Rightarrow>
        (case open_result d of
           Some err \<Rightarrow> (Inl (AdbcError err), s, [DbOpen])
         | None \<Rightarrow>
           (case new_statement_result d of
              Some err \<Rightarrow> (Inl (AdbcError err), s, [DbOpen, ConnNewStatement, ConnClose])
            | None \<Rightarrow>
              (case set_sql_query_result d (schemaQuery query) of
                 Some err \<Rightarrow>
                   (Inl (AdbcError err), s,
                    [DbOpen, ConnNewStatement, StmtSetSqlQuery (schemaQuery query),
                     StmtClose, ConnClose])
               | None \<Rightarrow>
                 (case execute_query_result d (schemaQuery query) of
                    Inl err \<Rightarrow>
                      (Inl (AdbcError err), s,
                       [DbOpen, ConnNewStatement, StmtSetSqlQuery (schemaQuery query),
                        StmtExecuteQuery (schemaQuery query), StmtClose, ConnClose])
                  | Inr rdr \<Rightarrow>
                      (Inr (reader_schema rdr), s,
                       [DbOpen, ConnNewStatement, StmtSetSqlQuery (schemaQuery query),
                        StmtExecuteQuery (schemaQuery query), ReaderSchema,
                        ReaderRelease, StmtClose, ConnClose]))))))"

text \<open>
  \<^verbatim>\<open>DoGetStatement\<close>, up to its return. On success it returns the schema and the reader that
  the goroutine it started will drain; the statement and the connection are closed by the
  deferred calls when the function returns, the reader is left to the goroutine.
\<close>

definition DoGetStatement ::
  "server \<Rightarrow> string \<Rightarrow> (error + schema \<times> reader) \<times> server \<times> event list" where
  "DoGetStatement s handle =
     (case queries s handle of
        None \<Rightarrow> (Inl (Errorf (''unknown statement handle: '' @ handle)), s, [])
      | Some query \<Rightarrow>
        (case db s of
           None \<Rightarrow> (Inl (Errorf ''database is not initialized''), s, [])
         | Some d \<Rightarrow>
           (case open_result d of
              Some err \<Rightarrow> (Inl (AdbcError err), s, [DbOpen])
            | None \<Rightarrow>
              (case new_statement_result d of
                 Some err \<Rightarrow> (Inl (AdbcError err), s, [DbOpen, ConnNewStatement, ConnClose])
               | None \<Rightarrow>
                 (case set_sql_query_result d query of
                    Some err \<Rightarrow>
                      (Inl (AdbcError err), s,
                       [DbOpen, ConnNewStatement, StmtSetSqlQuery query, StmtClose, ConnClose])
                  | None \<Rightarrow>
                    (case execute_query_result d query of
                       Inl err \<Rightarrow>
                         (Inl (AdbcError err), s,
                          [DbOpen, ConnNewStatement, StmtSetSqlQuery query,
                           StmtExecuteQuery query, StmtClose, ConnClose])
                     | Inr rdr \<Rightarrow>
                         (Inr (reader_schema rdr, rdr), s,
                          [DbOpen, ConnNewStatement, StmtSetSqlQuery query,
                           StmtExecuteQuery query, ReaderSchema, StmtClose, ConnClose])))))))"

text \<open>
  The goroutine started by \<^verbatim>\<open>DoGetStatement\<close>, \<^verbatim>\<open>DoGetDBSchemas\<close> and \<^verbatim>\<open>DoGetTables\<close>:
  \<^verbatim>\<open>defer close(ch); defer reader.Release(); for reader.Next() { body; ch <- chunk }\<close>.
  The channel is unbuffered, so each send waits for a receive of the consumer. The function
  gives the state the goroutine ends in when the consumer performs at most \<open>k\<close> receives:
  the batches handed over, the backend calls made, and how it ended. A panic in the loop
  body runs the deferred calls and then brings the process down.
\<close>

datatype outcome = ChannelClosed | BlockedOnSend | Crashed error

fun goroutine ::
  "(record_batch \<Rightarrow> error + record_batch) \<Rightarrow> record_batch list \<Rightarrow> nat \<Rightarrow>
   record_batch list \<times> event list \<times> outcome" where
  "goroutine body [] k = ([], [ReaderNext, ReaderRelease], ChannelClosed)"
| "goroutine body (rec # rest) k =
     (case body rec of
        Inl e \<Rightarrow> ([], [ReaderNext, ReaderRelease], Crashed e)
      | Inr chunk \<Rightarrow>
        (case k of
           0 \<Rightarrow> ([], [ReaderNext], BlockedOnSend)
         | Suc k' \<Rightarrow>
           (case goroutine body rest k' of
              (out, tr, oc) \<Rightarrow> (chunk # out, ReaderNext # tr, oc))))"

text \<open>The loop body of \<^verbatim>\<open>DoGetStatement\<close>'s goroutine passes the backend's batch on.\<close>

definition statement_chunk :: "record_batch \<Rightarrow> error + record_batch" where
  "statement_chunk rec = Inr rec"

section \<open>Metadata: reading the nested object tree\<close>

definition then_do :: "error + 'a \<Rightarrow> ('a \<Rightarrow> error + 'b) \<Rightarrow> error + 'b" where
  "then_do m f = (case m of Inl e \<Rightarrow> Inl e | Inr x \<Rightarrow> f x)"

text \<open>Go slice indexing and \<^verbatim>\<open>rec.Column(i)\<close> panic out of range.\<close>

definition index :: "'a list \<Rightarrow> int \<Rightarrow> error + 'a" where
  "index xs i = (if 0 \<le> i \<and> i < int (length xs) then Inr (xs ! nat i)
                 else Inl (Panic IndexOutOfRange))"

definition Column :: "record_batch \<Rightarrow> int \<Rightarrow> error + arrow_array" where
  "Column rec i = index (columns rec) i"

text \<open>
  The type assertions \<^verbatim>\<open>.(*array.String)\<close>, \<^verbatim>\<open>.(*array.List)\<close>, \<^verbatim>\<open>.(*array.Struct)\<close>, each
  giving what the server then reads of the array. Of a string array it calls \<^verbatim>\<open>Value\<close>,
  which needs the slice offset and the values. Of a list array it takes \<^verbatim>\<open>Offsets()\<close>, the
  whole offsets buffer, and \<^verbatim>\<open>ListValues()\<close>, the whole child array: neither depends on
  the list's slice offset. Of a struct array it calls \<^verbatim>\<open>Field\<close>.
\<close>

type_synonym string_array = "nat \<times> string list"

type_synonym struct_array = "nat \<times> nat \<times> arrow_array list"

fun as_String :: "arrow_array \<Rightarrow> error + string_array" where
  "as_String (StringArray off n xs) = Inr (off, xs)"
| "as_String a = Inl (Panic TypeAssertion)"

fun as_List :: "arrow_array \<Rightarrow> error + int list \<times> arrow_array" where
  "as_List (ListArray off n offs vs) = Inr (offs, vs)"
| "as_List a = Inl (Panic TypeAssertion)"

fun as_Struct :: "arrow_array \<Rightarrow> error + struct_array" where
  "as_Struct (StructArray off n fs) = Inr (off, n, fs)"
| "as_Struct a = Inl (Panic TypeAssertion)"

text \<open>\<^verbatim>\<open>Value(i)\<close> of a string array reads the values at \<open>i\<close> plus the slice offset.\<close>

definition Value :: "string_array \<Rightarrow> int \<Rightarrow> error + string" where
  "Value a i = index (snd a) (i + int (fst a))"

text \<open>
  \<^verbatim>\<open>Field(i)\<close> of a struct array: the child, cut to the struct's own window when the struct
  is sliced or the child's length differs from the struct's.
\<close>

definition Field :: "struct_array \<Rightarrow> int \<Rightarrow> error + arrow_array" where
  "Field st i =
     (case st of (off, n, fs) \<Rightarrow>
        then_do (index fs i) (\<lambda>child.
          if off \<noteq> 0 \<or> array_len child \<noteq> int n
          then NewSliceData child off (off + n)
          else Inr child))"

subsection \<open>Schema depth\<close>

record schema_builders =
  s_catalogNameBuilder :: "string list"
  s_dbSchemaNameBuilder :: "string list"

function schemas_loop_j ::
  "string_array \<Rightarrow> string \<Rightarrow> int \<Rightarrow> int \<Rightarrow> schema_builders \<Rightarrow> error + schema_builders" where
  "schemas_loop_j schemaNameCol catalogName j end b =
     (if j < end then
        (case Value schemaNameCol j of
           Inl e \<Rightarrow> Inl e
         | Inr schemaName \<Rightarrow>
             schemas_loop_j schemaNameCol catalogName (j + 1) end
               (b\<lparr>s_catalogNameBuilder := s_catalogNameBuilder b @ [catalogName],
                  s_dbSchemaNameBuilder := s_dbSchemaNameBuilder b @ [schemaName]\<rparr>))
      else Inr b)"
  by pat_completeness auto
termination
  by (relation "measure (\<lambda>(c, n, j, e, b). nat (e - j))") auto

function schemas_loop_i ::
  "string_array \<Rightarrow> int list \<Rightarrow> string_array \<Rightarrow> int \<Rightarrow> int \<Rightarrow> schema_builders \<Rightarrow>
   error + schema_builders" where
  "schemas_loop_i catalogNameCol offsets schemaNameCol i n b =
     (if i < n then
        (case Value catalogNameCol i of
           Inl e \<Rightarrow> Inl e
         | Inr catalogName \<Rightarrow>
           (case index offsets i of
              Inl e \<Rightarrow> Inl e
            | Inr start \<Rightarrow>
              (case index offsets (i + 1) of
                 Inl e \<Rightarrow> Inl e
               | Inr end \<Rightarrow>
                 (case schemas_loop_j schemaNameCol catalogName start end b of
                    Inl e \<Rightarrow> Inl e
                  | Inr b' \<Rightarrow>
                      schemas_loop_i catalogNameCol offsets schemaNameCol (i + 1) n b'))))
      else Inr b)"
  by pat_completeness auto
termination
  by (relation "measure (\<lambda>(c, os, sn, i, n, b). nat (n - i))") auto

text \<open>The body of the goroutine's loop in \<^verbatim>\<open>DoGetDBSchemas\<close>, for one introspection batch.\<close>

definition db_schemas_chunk :: "record_batch \<Rightarrow> error + record_batch" where
  "db_schemas_chunk rec =
     then_do (Column rec 0) (\<lambda>c0.
     then_do (as_String c0) (\<lambda>catalogNameCol.
     then_do (Column rec 1) (\<lambda>c1.
     then_do (as_List c1) (\<lambda>(offsets, listValues).
     then_do (as_Struct listValues) (\<lambda>catalogSchemasValues.
     then_do (Field catalogSchemasValues 0) (\<lambda>f0.
     then_do (as_String f0) (\<lambda>schemaNameCol.
     then_do (schemas_loop_i catalogNameCol offsets schemaNameCol 0 (num_rows rec)
                \<lparr>s_catalogNameBuilder = [], s_dbSchemaNameBuilder = []\<rparr>) (\<lambda>b.
       let cols = [NewArray (s_catalogNameBuilder b), NewArray (s_dbSchemaNameBuilder b)]
       in NewRecordBatch DBSchemas cols (array_len (cols ! 0))))))))))"

subsection \<open>Table depth\<close>

record table_builders =
  catalogNameBuilder :: "string list"
  dbSchemaNameBuilder :: "string list"
  tableNameBuilder :: "string list"
  tableTypeBuilder :: "string list"

function tables_loop_k ::
  "string_array \<Rightarrow> string_array \<Rightarrow> string \<Rightarrow> string \<Rightarrow> int \<Rightarrow> int \<Rightarrow> table_builders \<Rightarrow>
   error + table_builders" where
  "tables_loop_k tableNameCol tableTypeCol catalogName schemaName k tableEnd b =
     (if k < tableEnd then
        (case Value tableNameCol k of
           Inl e \<Rightarrow> Inl e
         | Inr tableName \<Rightarrow>
           (case Value tableTypeCol k of
              Inl e \<Rightarrow> Inl e
            | Inr tableType \<Rightarrow>
                tables_loop_k tableNameCol tableTypeCol catalogName schemaName (k + 1) tableEnd
                  (b\<lparr>catalogNameBuilder := catalogNameBuilder b @ [catalogName],
                     dbSchemaNameBuilder := dbSchemaNameBuilder b @ [schemaName],
                     tableNameBuilder := tableNameBuilder b @ [tableName],
                     tableTypeBuilder := tableTypeBuilder b @ [tableType]\<rparr>)))
      else Inr b)"
  by pat_completeness auto
termination
  by (relation "measure (\<lambda>(tn, tt, c, s, k, e, b). nat (e - k))") auto

function tables_loop_j ::
  "string_array \<Rightarrow> int list \<Rightarrow> string_array \<Rightarrow> string_array \<Rightarrow> string \<Rightarrow> int \<Rightarrow> int \<Rightarrow>
   table_builders \<Rightarrow> error + table_builders" where
  "tables_loop_j schemaNameCol tableOffsets tableNameCol tableTypeCol catalogName j schemaEnd b =
     (if j < schemaEnd then
        (case Value schemaNameCol j of
           Inl e \<Rightarrow> Inl e
         | Inr schemaName \<Rightarrow>
           (case index tableOffsets j of
              Inl e \<Rightarrow> Inl e
            | Inr tableStart \<Rightarrow>
              (case index tableOffsets (j + 1) of
                 Inl e \<Rightarrow> Inl e
               | Inr tableEnd \<Rightarrow>
                 (case tables_loop_k tableNameCol tableTypeCol catalogName schemaName
                         tableStart tableEnd b of
                    Inl e \<Rightarrow> Inl e
                  | Inr b' \<Rightarrow>
                      tables_loop_j schemaNameCol tableOffsets tableNameCol tableTypeCol
                        catalogName (j + 1) schemaEnd b'))))
      else Inr b)"
  by pat_completeness auto
termination
  by (relation "measure (\<lambda>(sn, tos, tn, tt, c, j, e, b). nat (e - j))") auto

function tables_loop_i ::
  "string_array \<Rightarrow> int list \<Rightarrow> string_array \<Rightarrow> int list \<Rightarrow> string_array \<Rightarrow> string_array \<Rightarrow>
   int \<Rightarrow> int \<Rightarrow> table_builders \<Rightarrow> error + table_builders" where
  "tables_loop_i catalogNameCol schemaOffsets schemaNameCol tableOffsets tableNameCol
       tableTypeCol i n b =
     (if i < n then
        (case Value catalogNameCol i of
           Inl e \<Rightarrow> Inl e
         | Inr catalogName \<Rightarrow>
           (case index schemaOffsets i of
              Inl e \<Rightarrow> Inl e
            | Inr schemaStart \<Rightarrow>
              (case index schemaOffsets (i + 1) of
                 Inl e \<Rightarrow> Inl e
               | Inr schemaEnd \<Rightarrow>
                 (case tables_loop_j schemaNameCol tableOffsets tableNameCol tableTypeCol
                         catalogName schemaStart schemaEnd b of
                    Inl e \<Rightarrow> Inl e
                  | Inr b' \<Rightarrow>
                      tables_loop_i catalogNameCol schemaOffsets schemaNameCol tableOffsets
                        tableNameCol tableTypeCol (i + 1) n b'))))
      else Inr b)"
  by pat_completeness auto
termination
  by (relation "measure (\<lambda>(c, sos, sn, tos, tn, tt, i, n, b). nat (n - i))") auto

declare tables_loop_k.simps [simp del] tables_loop_j.simps [simp del]
  tables_loop_i.simps [simp del]

text \<open>The body of the goroutine's loop in \<^verbatim>\<open>DoGetTables\<close>, for one introspection batch.\<close>

definition tables_chunk :: "record_batch \<Rightarrow> error + record_batch" where
  "tables_chunk rec =
     then_do (Column rec 0) (\<lambda>c0.
     then_do (as_String c0) (\<lambda>catalogNameCol.
     then_do (Column rec 1) (\<lambda>c1.
     then_do (as_List c1) (\<lambda>(schemaOffsets, listValues).
     then_do (as_Struct listValues) (\<lambda>catalogSchemasValues.
     then_do (Field catalogSchemasValues 0) (\<lambda>f0.
     then_do (as_String f0) (\<lambda>schemaNameCol.
     then_do (Field catalogSchemasValues 1) (\<lambda>f1.
     then_do (as_List f1) (\<lambda>(tableOffsets, tableValues).
     then_do (as_Struct tableValues) (\<lambda>schemaTablesValues.
     then_do (Field schemaTablesValues 0) (\<lambda>t0.
     then_do (as_String t0) (\<lambda>tableNameCol.
     then_do (Field schemaTablesValues 1) (\<lambda>t1.
     then_do (as_String t1) (\<lambda>tableTypeCol.
     then_do (tables_loop_i catalogNameCol schemaOffsets schemaNameCol tableOffsets
                tableNameCol tableTypeCol 0 (num_rows rec)
                \<lparr>catalogNameBuilder = [], dbSchemaNameBuilder = [],
                 tableNameBuilder = [], tableTypeBuilder = []\<rparr>) (\<lambda>b.
       let cols = [NewArray (catalogNameBuilder b), NewArray (dbSchemaNameBuilder b),
                   NewArray (tableNameBuilder b), NewArray (tableTypeBuilder b)]
       in NewRecordBatch Tables cols (array_len (cols ! 0)))))))))))))))))"

section \<open>Metadata operations\<close>

text \<open>
  The \<^verbatim>\<open>GetFlightInfo\<close> calls for metadata answer from the request alone: the ticket is the
  descriptor's command, the schema is the protocol's.
\<close>

definition GetFlightInfoCatalogs :: "server \<Rightarrow> string \<Rightarrow> (error + flight_info) \<times> server \<times> event list" where
  "GetFlightInfoCatalogs s cmd = (Inr \<lparr>ticket = cmd, info_schema = Catalogs\<rparr>, s, [])"

definition GetFlightInfoSchemas :: "server \<Rightarrow> string \<Rightarrow> (error + flight_info) \<times> server \<times> event list" where
  "GetFlightInfoSchemas s cmd = (Inr \<lparr>ticket = cmd, info_schema = DBSchemas\<rparr>, s, [])"

definition GetFlightInfoTables :: "server \<Rightarrow> string \<Rightarrow> (error + flight_info) \<times> server \<times> event list" where
  "GetFlightInfoTables s cmd = (Inr \<lparr>ticket = cmd, info_schema = Tables\<rparr>, s, [])"

text \<open>
  \<^verbatim>\<open>DoGetCatalogs\<close> fills a channel of capacity one before it returns: the loop runs in the
  calling goroutine, so a second send finds the buffer full with nobody receiving. On
  success the result is the schema and the chunks left in the closed channel.
\<close>

fun catalogs_loop ::
  "record_batch list \<Rightarrow> record_batch list \<Rightarrow> (error + record_batch list) \<times> event list" where
  "catalogs_loop [] ch = (Inr ch, [ReaderNext])"
| "catalogs_loop (rec # rest) ch =
     (case Column rec 0 of
        Inl e \<Rightarrow> (Inl e, [ReaderNext])
      | Inr c0 \<Rightarrow>
        (case NewRecordBatch Catalogs [c0] 0 of
           Inl e \<Rightarrow> (Inl e, [ReaderNext])
         | Inr record \<Rightarrow>
             if length ch < 1
             then (case catalogs_loop rest (ch @ [record]) of (r, tr) \<Rightarrow> (r, ReaderNext # tr))
             else (Inl Blocked, [ReaderNext])))"

definition nil_args :: get_objects_args where
  "nil_args = \<lparr>catalog = None, db_schema = None, table_name = None, table_types = []\<rparr>"

definition DoGetCatalogs ::
  "server \<Rightarrow> (error + schema \<times> record_batch list) \<times> server \<times> event list" where
  "DoGetCatalogs s =
     (case db s of
        None \<Rightarrow> (Inl (Errorf ''database is not initialized''), s, [])
      | Some d \<Rightarrow>
        (case open_result d of
           Some err \<Rightarrow> (Inl (AdbcError err), s, [DbOpen])
         | None \<Rightarrow>
           (case get_objects_result d ObjectDepthCatalogs nil_args of
              Inl err \<Rightarrow>
                (Inl (AdbcError err), s,
                 [DbOpen, ConnGetObjects ObjectDepthCatalogs nil_args, ConnClose])
            | Inr rdr \<Rightarrow>
              (case catalogs_loop (reader_batches rdr) [] of
                 (Inl Blocked, tr) \<Rightarrow>
                   (Inl Blocked, s, [DbOpen, ConnGetObjects ObjectDepthCatalogs nil_args] @ tr)
               | (Inl e, tr) \<Rightarrow>
                   (Inl e, s,
                    [DbOpen, ConnGetObjects ObjectDepthCatalogs nil_args] @ tr @ [ConnClose])
               | (Inr ch, tr) \<Rightarrow>
                   (Inr (Catalogs, ch), s,
                    [DbOpen, ConnGetObjects ObjectDepthCatalogs nil_args] @ tr @ [ConnClose])))))"

text \<open>
  \<^verbatim>\<open>DoGetDBSchemas\<close> and \<^verbatim>\<open>DoGetTables\<close>, up to their return: they dereference the database
  pointer without a check, and leave the reader to the goroutine (\<open>goroutine db_schemas_chunk\<close>,
  \<open>goroutine tables_chunk\<close>).
\<close>

definition DoGetDBSchemas ::
  "server \<Rightarrow> get_objects_args \<Rightarrow> (error + schema \<times> reader) \<times> server \<times> event list" where
  "DoGetDBSchemas s cmd =
     (case db s of
        None \<Rightarrow> (Inl (Panic NilPointerDereference), s, [])
      | Some d \<Rightarrow>
        (case open_result d of
           Some err \<Rightarrow> (Inl (AdbcError err), s, [DbOpen])
         | None \<Rightarrow>
           (let args = \<lparr>catalog = catalog cmd, db_schema = db_schema cmd,
                        table_name = None, table_types = []\<rparr>
            in case get_objects_result d ObjectDepthDBSchemas args of
                 Inl err \<Rightarrow>
                   (Inl (AdbcError err), s,
                    [DbOpen, ConnGetObjects ObjectDepthDBSchemas args, ConnClose])
               | Inr rdr \<Rightarrow>
                   (Inr (DBSchemas, rdr), s,
                    [DbOpen, ConnGetObjects ObjectDepthDBSchemas args, ConnClose]))))"

definition DoGetTables ::
  "server \<Rightarrow> get_objects_args \<Rightarrow> (error + schema \<times> reader) \<times> server \<times> event list" where
  "DoGetTables s cmd =
     (case db s of
        None \<Rightarrow> (Inl (Panic NilPointerDereference), s, [])
      | Some d \<Rightarrow>
        (case open_result d of
           Some err \<Rightarrow> (Inl (AdbcError err), s, [DbOpen])
         | None \<Rightarrow>
           (case get_objects_result d ObjectDepthTables cmd of
              Inl err \<Rightarrow>
                (Inl (AdbcError err), s,
                 [DbOpen, ConnGetObjects ObjectDepthTables cmd, ConnClose])
            | Inr rdr \<Rightarrow>
                (Inr (Tables, rdr), s,
                 [DbOpen, ConnGetObjects ObjectDepthTables cmd, ConnClose]))))"

section \<open>Reading results and traces\<close>

abbreviation result :: "'a \<times> server \<times> event list \<Rightarrow> 'a" where
  "result r \<equiv> fst r"

abbreviation server_after :: "'a \<times> server \<times> event list \<Rightarrow> server" where
  "server_after r \<equiv> fst (snd r)"

abbreviation calls :: "'a \<times> server \<times> event list \<Rightarrow> event list" where
  "calls r \<equiv> snd (snd r)"

text \<open>The texts handed to \<^verbatim>\<open>SetSqlQuery\<close> and the texts run by \<^verbatim>\<open>ExecuteQuery\<close>, in order.\<close>

fun prepared :: "event list \<Rightarrow> string list" where
  "prepared [] = []"
| "prepared (StmtSetSqlQuery t # es) = t # prepared es"
| "prepared (e # es) = prepared es"

fun executed :: "event list \<Rightarrow> string list" where
  "executed [] = []"
| "executed (StmtExecuteQuery t # es) = t # executed es"
| "executed (e # es) = executed es"

section \<open>The object tree of an introspection batch\<close>

text \<open>
  The invariant of the nested tree: \<open>n\<close> parents own the contiguous child ranges
  \<open>[offsets ! i, offsets ! (i + 1))\<close> of an array of \<open>m\<close> children.
\<close>

definition wf_offsets :: "int list \<Rightarrow> nat \<Rightarrow> nat \<Rightarrow> bool" where
  "wf_offsets offsets n m =
     (length offsets = n + 1 \<and> sorted offsets \<and> 0 \<le> offsets ! 0 \<and> offsets ! n \<le> int m)"

text \<open>
  An unsliced introspection batch at table depth, and the flat rows its tree stands for:
  for each catalog \<open>i\<close>, each schema \<open>j\<close> in its range and each table \<open>tab\<close> (name and type)
  in the range of \<open>j\<close>, the row of the catalog's name, the schema's name and the table.
\<close>

definition objects_batch ::
  "string list \<Rightarrow> int list \<Rightarrow> string list \<Rightarrow> int list \<Rightarrow> string list \<Rightarrow> string list \<Rightarrow>
   record_batch" where
  "objects_batch cats so sn to tn tt =
     \<lparr>batch_schema = [(''catalog_name'', Utf8),
                      (''catalog_db_schemas'',
                       ListOf (StructOf [Utf8, ListOf (StructOf [Utf8, Utf8])]))],
      columns = [StringArray 0 (length cats) cats,
                 ListArray 0 (length cats) so (StructArray 0 (length sn)
                   [StringArray 0 (length sn) sn,
                    ListArray 0 (length sn) to (StructArray 0 (length tn)
                      [StringArray 0 (length tn) tn, StringArray 0 (length tt) tt])])],
      num_rows = int (length cats)\<rparr>"

definition wf_objects ::
  "string list \<Rightarrow> int list \<Rightarrow> string list \<Rightarrow> int list \<Rightarrow> string list \<Rightarrow> string list \<Rightarrow> bool" where
  "wf_objects cats so sn to tn tt =
     (wf_offsets so (length cats) (length sn) \<and> wf_offsets to (length sn) (length tn) \<and>
      length tt = length tn)"

definition tables_of ::
  "int list \<Rightarrow> string list \<Rightarrow> string list \<Rightarrow> nat \<Rightarrow> (string \<times> string) list" where
  "tables_of to tn tt j = map (\<lambda>k. (tn ! k, tt ! k)) [nat (to ! j) ..< nat (to ! (j + 1))]"

definition schemas_of :: "int list \<Rightarrow> nat \<Rightarrow> nat list" where
  "schemas_of so i = [nat (so ! i) ..< nat (so ! (i + 1))]"

definition catalog_rows ::
  "string list \<Rightarrow> int list \<Rightarrow> string list \<Rightarrow> int list \<Rightarrow> string list \<Rightarrow> string list \<Rightarrow>
   nat \<Rightarrow> (string \<times> string \<times> string \<times> string) list" where
  "catalog_rows cats so sn to tn tt i =
     concat (map (\<lambda>j. map (\<lambda>tab. (cats ! i, sn ! j, tab)) (tables_of to tn tt j))
       (schemas_of so i))"

definition flat_rows ::
  "string list \<Rightarrow> int list \<Rightarrow> string list \<Rightarrow> int list \<Rightarrow> string list \<Rightarrow> string list \<Rightarrow>
   (string \<times> string \<times> string \<times> string) list" where
  "flat_rows cats so sn to tn tt =
     concat (map (catalog_rows cats so sn to tn tt) [0 ..< length cats])"

text \<open>
  \<^verbatim>\<open>rec.NewSlice(i, j)\<close> of the Arrow library: every column cut to the rows from \<open>i\<close> up to
  \<open>j\<close>, in a batch of \<open>j - i\<close> rows.
\<close>

fun slice_columns :: "arrow_array list \<Rightarrow> nat \<Rightarrow> nat \<Rightarrow> error + arrow_array list" where
  "slice_columns [] i j = Inr []"
| "slice_columns (a # arrs) i j =
     (case NewSliceData a i j of
        Inl e \<Rightarrow> Inl e
      | Inr a' \<Rightarrow>
        (case slice_columns arrs i j of
           Inl e \<Rightarrow> Inl e
         | Inr arrs' \<Rightarrow> Inr (a' # arrs')))"

definition NewSlice :: "record_batch \<Rightarrow> nat \<Rightarrow> nat \<Rightarrow> error + record_batch" where
  "NewSlice rec i j =
     then_do (slice_columns (columns rec) i j) (\<lambda>arrs.
       NewRecordBatch (batch_schema rec) arrs (int j - int i))"

section \<open>Sample backends\<close>

definition people_batch1 :: record_batch where
  "people_batch1 =
     \<lparr>batch_schema = [(''name'', Utf8)], columns = [NewArray [''a'', ''b'']], num_rows = 2\<rparr>"

definition people_batch2 :: record_batch where
  "people_batch2 =
     \<lparr>batch_schema = [(''name'', Utf8)], columns = [NewArray [''c'']], num_rows = 1\<rparr>"

definition sample_objects :: record_batch where
  "sample_objects =
     objects_batch [''main'', ''temp''] [0, 2, 3] [''public'', ''audit'', ''scratch'']
       [0, 2, 2, 3] [''users'', ''orders'', ''tmp1''] [''table'', ''view'', ''table'']"

text \<open>The same batch cut to its second catalog, \<^verbatim>\<open>sample_objects.NewSlice(1, 2)\<close>.\<close>

definition sliced_objects :: record_batch where
  "sliced_objects =
     \<lparr>batch_schema = batch_schema sample_objects,
      columns = [StringArray 1 1 [''main'', ''temp''],
                 ListArray 1 1 [0, 2, 3] (StructArray 0 3
                   [StringArray 0 3 [''public'', ''audit'', ''scratch''],
                    ListArray 0 3 [0, 2, 2, 3] (StructArray 0 3
                      [StringArray 0 3 [''users'', ''orders'', ''tmp1''],
                       StringArray 0 3 [''table'', ''view'', ''table'']])])],
      num_rows = 1\<rparr>"

definition sample_get_objects :: "object_depth \<Rightarrow> get_objects_args \<Rightarrow> string + reader" where
  "sample_get_objects depth args =
     Inr \<lparr>reader_schema = batch_schema sample_objects, reader_batches = [sample_objects]\<rparr>"

text \<open>A backend that knows one table and reports the same schema with and without rows.\<close>

definition sample_execute :: "string \<Rightarrow> string + reader" where
  "sample_execute q =
     (if q = ''SELECT name FROM T''
      then Inr \<lparr>reader_schema = [(''name'', Utf8)],
                reader_batches = [people_batch1, people_batch2]\<rparr>
      else if q = schemaQuery ''SELECT name FROM T''
      then Inr \<lparr>reader_schema = [(''name'', Utf8)], reader_batches = []\<rparr>
      else Inl ''no such table'')"

definition sample_db :: database where
  "sample_db =
     \<lparr>open_result = None, new_statement_result = None, set_sql_query_result = (\<lambda>q. None),
      execute_query_result = sample_execute, get_objects_result = sample_get_objects\<rparr>"

definition sample_server :: server where
  "sample_server = \<lparr>db = Some sample_db, queries = Map.empty\<rparr>"

definition sample_bytes :: "8 word list" where
  "sample_bytes = [0x3c, 0x01, 0xa7, 0xff, 0x10, 0x22, 0x9b, 0x4e,
                   0x00, 0x5d, 0xc8, 0x71, 0xe6, 0x0f, 0xb2, 0x93]"

text \<open>
  A backend that types a result column from the rows it reads and falls back to a
  default type when there is none, as drivers for dynamically typed stores do.
\<close>

definition inferring_execute :: "string \<Rightarrow> string + reader" where
  "inferring_execute q =
     (if q = ''SELECT name FROM T''
      then Inr \<lparr>reader_schema = [(''name'', Utf8)],
                reader_batches = [people_batch1, people_batch2]\<rparr>
      else if q = schemaQuery ''SELECT name FROM T''
      then Inr \<lparr>reader_schema = [(''name'', Int64)], reader_batches = []\<rparr>
      else Inl ''no such table'')"

definition inferring_db :: database where
  "inferring_db =
     \<lparr>open_result = None, new_statement_result = None, set_sql_query_result = (\<lambda>q. None),
      execute_query_result = inferring_execute, get_objects_result = sample_get_objects\<rparr>"

definition inferring_server :: server where
  "inferring_server = \<lparr>db = Some inferring_db, queries = Map.empty\<rparr>"

section \<open>Streams, a registered statement, and rows in the builders\<close>

text \<open>The stream a successful \<^verbatim>\<open>DoGet\<close> call leaves to its goroutine, and the goroutine's parts.\<close>

definition stream_batches ::
  "(error + schema \<times> reader) \<times> server \<times> event list \<Rightarrow> record_batch list" where
  "stream_batches r = (case fst r of Inl e \<Rightarrow> [] | Inr (sch, rdr) \<Rightarrow> reader_batches rdr)"

abbreviation delivered :: "record_batch list \<times> event list \<times> outcome \<Rightarrow> record_batch list" where
  "delivered g \<equiv> fst g"

abbreviation goroutine_calls :: "record_batch list \<times> event list \<times> outcome \<Rightarrow> event list" where
  "goroutine_calls g \<equiv> fst (snd g)"

abbreviation ended :: "record_batch list \<times> event list \<times> outcome \<Rightarrow> outcome" where
  "ended g \<equiv> snd (snd g)"

text \<open>A server that holds one registered statement, as after a describe call.\<close>

definition registered_server :: server where
  "registered_server =
     \<lparr>db = Some sample_db, queries = [''test-handle'' \<mapsto> ''SELECT name FROM T'']\<rparr>"

text \<open>Appending flat rows to the four builders in lockstep.\<close>

definition add_rows ::
  "table_builders \<Rightarrow> (string \<times> string \<times> string \<times> string) list \<Rightarrow> table_builders" where
  "add_rows b rows =
     b\<lparr>catalogNameBuilder := catalogNameBuilder b @ map (\<lambda>(c, s, t, ty). c) rows,
       dbSchemaNameBuilder := dbSchemaNameBuilder b @ map (\<lambda>(c, s, t, ty). s) rows,
       tableNameBuilder := tableNameBuilder b @ map (\<lambda>(c, s, t, ty). t) rows,
       tableTypeBuilder := tableTypeBuilder b @ map (\<lambda>(c, s, t, ty). ty) rows\<rparr>"

section \<open>Auxiliary facts\<close>

lemma schemaQuery_neq: "schemaQuery T \<noteq> T"
proof
  assume "schemaQuery T = T"
  then have "length (schemaQuery T) = length T" by simp
  then show False by (simp add: schemaQuery_def)
qed

lemma GetSchemaStatement_server: "server_after (GetSchemaStatement s q) = s"
  by (simp add: GetSchemaStatement_def split: option.splits sum.splits)

lemma DoGetStatement_server: "server_after (DoGetStatement s h) = s"
  by (simp add: DoGetStatement_def split: option.splits sum.splits)

lemma DoGetCatalogs_server: "server_after (DoGetCatalogs s) = s"
  by (simp add: DoGetCatalogs_def split: option.splits sum.splits prod.splits error.splits)

lemma DoGetDBSchemas_server: "server_after (DoGetDBSchemas s a) = s"
  by (simp add: DoGetDBSchemas_def Let_def split: option.splits sum.splits)

lemma DoGetTables_server: "server_after (DoGetTables s a) = s"
  by (simp add: DoGetTables_def split: option.splits sum.splits)

lemma GetFlightInfoStatement_server:
  "server_after (GetFlightInfoStatement s rnd q) = s \<or>
   (\<exists>hb. rnd = Inr hb \<and>
      server_after (GetFlightInfoStatement s rnd q) =
        s\<lparr>queries := (queries s)(EncodeToString hb \<mapsto> q)\<rparr>)"
  by (simp add: GetFlightInfoStatement_def Let_def split: option.splits sum.splits)

subsection \<open>The goroutine of a statement\<close>

lemma goroutine_statement_calls:
  "goroutine_calls (goroutine statement_chunk bs k) =
     replicate (Suc (min k (length bs))) ReaderNext @
       (if length bs \<le> k then [ReaderRelease] else [])"
proof (induction bs arbitrary: k)
  case Nil
  then show ?case by simp
next
  case (Cons b bs)
  show ?case
  proof (cases k)
    case 0
    then show ?thesis by (simp add: statement_chunk_def)
  next
    case (Suc k')
    then show ?thesis
      using Cons.IH [of k'] by (auto simp add: statement_chunk_def split: prod.splits)
  qed
qed

lemma goroutine_statement_delivered:
  "delivered (goroutine statement_chunk bs k) = take k bs"
proof (induction bs arbitrary: k)
  case Nil
  then show ?case by simp
next
  case (Cons b bs)
  show ?case
  proof (cases k)
    case 0
    then show ?thesis by (simp add: statement_chunk_def)
  next
    case (Suc k')
    then show ?thesis
      using Cons.IH [of k'] by (auto simp add: statement_chunk_def split: prod.splits)
  qed
qed

lemma goroutine_statement_ended:
  "ended (goroutine statement_chunk bs k) =
     (if length bs \<le> k then ChannelClosed else BlockedOnSend)"
proof (induction bs arbitrary: k)
  case Nil
  then show ?case by simp
next
  case (Cons b bs)
  show ?case
  proof (cases k)
    case 0
    then show ?thesis by (simp add: statement_chunk_def)
  next
    case (Suc k')
    then show ?thesis
      using Cons.IH [of k'] by (auto simp add: statement_chunk_def split: prod.splits)
  qed
qed

lemma count_list_replicate_neq: "x \<noteq> y \<Longrightarrow> count_list (replicate n x) y = 0"
  by (induction n) auto

subsection \<open>The loops of the table flattener\<close>

lemma add_rows_Nil: "add_rows b [] = b"
  by (simp add: add_rows_def)

lemma add_rows_append: "add_rows (add_rows b xs) ys = add_rows b (xs @ ys)"
  by (simp add: add_rows_def)

lemma add_rows_single:
  "b\<lparr>catalogNameBuilder := catalogNameBuilder b @ [c],
     dbSchemaNameBuilder := dbSchemaNameBuilder b @ [s],
     tableNameBuilder := tableNameBuilder b @ [t],
     tableTypeBuilder := tableTypeBuilder b @ [ty]\<rparr> = add_rows b [(c, s, t, ty)]"
  by (simp add: add_rows_def)

lemma index_in_range: "0 \<le> i \<Longrightarrow> i < int (length xs) \<Longrightarrow> index xs i = Inr (xs ! nat i)"
  by (simp add: index_def)

lemma Value_unsliced:
  "fst a = 0 \<Longrightarrow> 0 \<le> i \<Longrightarrow> i < int (length (snd a)) \<Longrightarrow> Value a i = Inr (snd a ! nat i)"
  by (simp add: Value_def index_def)

lemma wf_offsets_range:
  assumes "wf_offsets offs n m" and "i < n"
  shows "0 \<le> offs ! i" and "offs ! i \<le> offs ! (i + 1)" and "offs ! (i + 1) \<le> int m"
proof -
  from assms have len: "length offs = n + 1" and srt: "sorted offs"
    and lo: "0 \<le> offs ! 0" and hi: "offs ! n \<le> int m"
    by (simp_all add: wf_offsets_def)
  have "offs ! 0 \<le> offs ! i" using srt len assms(2) by (intro sorted_nth_mono) simp_all
  with lo show "0 \<le> offs ! i" by simp
  show "offs ! i \<le> offs ! (i + 1)" using srt len assms(2) by (intro sorted_nth_mono) simp_all
  have "offs ! (i + 1) \<le> offs ! n" using srt len assms(2) by (intro sorted_nth_mono) simp_all
  with hi show "offs ! (i + 1) \<le> int m" by simp
qed

lemma upt_nat_step: "0 \<le> k \<Longrightarrow> k < e \<Longrightarrow> [nat k ..< nat e] = nat k # [nat (k + 1) ..< nat e]"
  by (simp add: upt_conv_Cons nat_add_distrib)

lemma tables_loop_k_rows:
  "0 \<le> k \<Longrightarrow> e \<le> int (length (snd tn)) \<Longrightarrow> length (snd tt) = length (snd tn) \<Longrightarrow>
   fst tn = 0 \<Longrightarrow> fst tt = 0 \<Longrightarrow>
   tables_loop_k tn tt c s k e b =
     Inr (add_rows b (map (\<lambda>k. (c, s, snd tn ! k, snd tt ! k)) [nat k ..< nat e]))"
proof (induction tn tt c s k e b rule: tables_loop_k.induct)
  case (1 tn tt c s k e b)
  show ?case
  proof (cases "k < e")
    case True
    have i1: "Value tn k = Inr (snd tn ! nat k)"
      using True 1(2,3,5) by (simp add: Value_unsliced)
    have i2: "Value tt k = Inr (snd tt ! nat k)"
      using True 1(2,3,4,6) by (simp add: Value_unsliced)
    have step: "tables_loop_k tn tt c s (k + 1) e
          (add_rows b [(c, s, snd tn ! nat k, snd tt ! nat k)]) =
        Inr (add_rows (add_rows b [(c, s, snd tn ! nat k, snd tt ! nat k)])
              (map (\<lambda>k. (c, s, snd tn ! k, snd tt ! k)) [nat (k + 1) ..< nat e]))"
      using "1.IH" [OF True i1 i2] 1(2,3,4,5,6) by (simp add: add_rows_single)
    have "tables_loop_k tn tt c s k e b =
        tables_loop_k tn tt c s (k + 1) e (add_rows b [(c, s, snd tn ! nat k, snd tt ! nat k)])"
      using True i1 i2 by (subst tables_loop_k.simps) (simp add: add_rows_single)
    also note step
    finally show ?thesis
      using True 1(2) by (simp add: add_rows_append upt_nat_step)
  next
    case False
    then show ?thesis
      by (subst tables_loop_k.simps) (simp add: add_rows_Nil)
  qed
qed

lemma tables_of_rows:
  "map (\<lambda>tab. (c, s, tab)) (tables_of to tn tt j) =
   map (\<lambda>k. (c, s, tn ! k, tt ! k)) [nat (to ! j) ..< nat (to ! (j + 1))]"
  by (simp add: tables_of_def)

lemma tables_loop_j_rows:
  "0 \<le> j \<Longrightarrow> e \<le> int (length (snd sn)) \<Longrightarrow>
   wf_offsets to (length (snd sn)) (length (snd tn)) \<Longrightarrow>
   length (snd tt) = length (snd tn) \<Longrightarrow> fst sn = 0 \<Longrightarrow> fst tn = 0 \<Longrightarrow> fst tt = 0 \<Longrightarrow>
   tables_loop_j sn to tn tt c j e b =
     Inr (add_rows b (concat (map (\<lambda>j. map (\<lambda>tab. (c, snd sn ! j, tab))
            (tables_of to (snd tn) (snd tt) j)) [nat j ..< nat e])))"
proof (induction sn to tn tt c j e b rule: tables_loop_j.induct)
  case (1 sn to tn tt c j e b)
  show ?case
  proof (cases "j < e")
    case True
    let ?j = "nat j"
    let ?rows = "map (\<lambda>tab. (c, snd sn ! ?j, tab)) (tables_of to (snd tn) (snd tt) ?j)"
    have jn: "?j < length (snd sn)" using True 1(2,3) by simp
    have len: "length to = length (snd sn) + 1" using 1(4) by (simp add: wf_offsets_def)
    have i1: "Value sn j = Inr (snd sn ! ?j)"
      using True 1(2,3,6) by (simp add: Value_unsliced)
    have i2: "index to j = Inr (to ! ?j)"
      using True 1(2,3) len by (simp add: index_in_range)
    have i3: "index to (j + 1) = Inr (to ! (?j + 1))"
      using True 1(2,3) len by (simp add: index_in_range nat_add_distrib)
    have k: "tables_loop_k tn tt c (snd sn ! ?j) (to ! ?j) (to ! (?j + 1)) b =
        Inr (add_rows b ?rows)"
      using wf_offsets_range [OF 1(4) jn] 1(5,7,8)
      by (simp add: tables_loop_k_rows tables_of_rows)
    have step: "tables_loop_j sn to tn tt c (j + 1) e (add_rows b ?rows) =
        Inr (add_rows (add_rows b ?rows)
          (concat (map (\<lambda>j. map (\<lambda>tab. (c, snd sn ! j, tab))
            (tables_of to (snd tn) (snd tt) j)) [nat (j + 1) ..< nat e])))"
      using "1.IH" [OF True i1 i2 i3 k] 1(2,3,4,5,6,7,8) by simp
    have "tables_loop_j sn to tn tt c j e b =
        tables_loop_j sn to tn tt c (j + 1) e (add_rows b ?rows)"
      using True i1 i2 i3 k by (subst tables_loop_j.simps) simp
    also note step
    finally show ?thesis
      using True 1(2) by (simp add: add_rows_append upt_nat_step)
  next
    case False
    then show ?thesis
      by (subst tables_loop_j.simps) (simp add: add_rows_Nil)
  qed
qed

lemma tables_loop_i_rows:
  "0 \<le> i \<Longrightarrow> n \<le> int (length (snd cats)) \<Longrightarrow>
   wf_offsets so (length (snd cats)) (length (snd sn)) \<Longrightarrow>
   wf_offsets to (length (snd sn)) (length (snd tn)) \<Longrightarrow>
   length (snd tt) = length (snd tn) \<Longrightarrow>
   fst cats = 0 \<Longrightarrow> fst sn = 0 \<Longrightarrow> fst tn = 0 \<Longrightarrow> fst tt = 0 \<Longrightarrow>
   tables_loop_i cats so sn to tn tt i n b =
     Inr (add_rows b (concat (map (catalog_rows (snd cats) so (snd sn) to (snd tn) (snd tt))
       [nat i ..< nat n])))"
proof (induction cats so sn to tn tt i n b rule: tables_loop_i.induct)
  case (1 cats so sn to tn tt i n b)
  show ?case
  proof (cases "i < n")
    case True
    let ?i = "nat i"
    let ?rows = "catalog_rows (snd cats) so (snd sn) to (snd tn) (snd tt) ?i"
    have inn: "?i < length (snd cats)" using True 1(2,3) by simp
    have len: "length so = length (snd cats) + 1" using 1(4) by (simp add: wf_offsets_def)
    have i1: "Value cats i = Inr (snd cats ! ?i)"
      using True 1(2,3,7) by (simp add: Value_unsliced)
    have i2: "index so i = Inr (so ! ?i)"
      using True 1(2,3) len by (simp add: index_in_range)
    have i3: "index so (i + 1) = Inr (so ! (?i + 1))"
      using True 1(2,3) len by (simp add: index_in_range nat_add_distrib)
    have j: "tables_loop_j sn to tn tt (snd cats ! ?i) (so ! ?i) (so ! (?i + 1)) b =
        Inr (add_rows b ?rows)"
      using wf_offsets_range [OF 1(4) inn] 1(5,6,8,9,10)
      by (simp add: tables_loop_j_rows schemas_of_def catalog_rows_def)
    have step: "tables_loop_i cats so sn to tn tt (i + 1) n (add_rows b ?rows) =
        Inr (add_rows (add_rows b ?rows)
          (concat (map (catalog_rows (snd cats) so (snd sn) to (snd tn) (snd tt))
             [nat (i + 1) ..< nat n])))"
      using "1.IH" [OF True i1 i2 i3 j] 1(2,3,4,5,6,7,8,9,10) by simp
    have "tables_loop_i cats so sn to tn tt i n b =
        tables_loop_i cats so sn to tn tt (i + 1) n (add_rows b ?rows)"
      using True i1 i2 i3 j by (subst tables_loop_i.simps) simp
    also note step
    finally show ?thesis
      using True 1(2) by (simp add: add_rows_append upt_nat_step)
  next
    case False
    then show ?thesis
      by (subst tables_loop_i.simps) (simp add: add_rows_Nil)
  qed
qed

lemma map_add_rows_empty:
  "add_rows \<lparr>catalogNameBuilder = [], dbSchemaNameBuilder = [],
             tableNameBuilder = [], tableTypeBuilder = []\<rparr> rows =
   \<lparr>catalogNameBuilder = map (\<lambda>(c, s, t, ty). c) rows,
    dbSchemaNameBuilder = map (\<lambda>(c, s, t, ty). s) rows,
    tableNameBuilder = map (\<lambda>(c, s, t, ty). t) rows,
    tableTypeBuilder = map (\<lambda>(c, s, t, ty). ty) rows\<rparr>"
  by (simp add: add_rows_def)

lemma tables_chunk_flat_rows:
  assumes "wf_objects cats so sn to tn tt"
  shows "tables_chunk (objects_batch cats so sn to tn tt) =
     Inr \<lparr>batch_schema = Tables,
          columns = [NewArray (map (\<lambda>(c, s, t, ty). c) (flat_rows cats so sn to tn tt)),
                     NewArray (map (\<lambda>(c, s, t, ty). s) (flat_rows cats so sn to tn tt)),
                     NewArray (map (\<lambda>(c, s, t, ty). t) (flat_rows cats so sn to tn tt)),
                     NewArray (map (\<lambda>(c, s, t, ty). ty) (flat_rows cats so sn to tn tt))],
          num_rows = int (length (flat_rows cats so sn to tn tt))\<rparr>"
proof -
  have loop: "tables_loop_i (0, cats) so (0, sn) to (0, tn) (0, tt) 0 (int (length cats))
      \<lparr>catalogNameBuilder = [], dbSchemaNameBuilder = [],
       tableNameBuilder = [], tableTypeBuilder = []\<rparr> =
      Inr \<lparr>catalogNameBuilder = map (\<lambda>(c, s, t, ty). c) (flat_rows cats so sn to tn tt),
           dbSchemaNameBuilder = map (\<lambda>(c, s, t, ty). s) (flat_rows cats so sn to tn tt),
           tableNameBuilder = map (\<lambda>(c, s, t, ty). t) (flat_rows cats so sn to tn tt),
           tableTypeBuilder = map (\<lambda>(c, s, t, ty). ty) (flat_rows cats so sn to tn tt)\<rparr>"
    using assms
    by (simp add: wf_objects_def tables_loop_i_rows map_add_rows_empty flat_rows_def)
  have tt: "length tt = length tn" using assms by (simp add: wf_objects_def)
  show ?thesis
    by (simp add: tables_chunk_def objects_batch_def Column_def index_def then_do_def Field_def
        tt loop NewRecordBatch_def validate_def Tables_def NewArray_def)
qed

lemma length_tables_of:
  "length (tables_of to tn tt j) = nat (to ! (j + 1)) - nat (to ! j)"
  by (simp add: tables_of_def)

lemma length_flat_rows:
  "length (flat_rows cats so sn to tn tt) =
     (\<Sum>i\<leftarrow>[0 ..< length cats]. \<Sum>j\<leftarrow>schemas_of so i. length (tables_of to tn tt j))"
  by (simp add: flat_rows_def catalog_rows_def length_concat comp_def)

section \<open>The two-phase statement protocol\<close>

text \<open>
  C1. Describing a query text \<open>T\<close> (with a database configured and \<^verbatim>\<open>rand.Read\<close>
  delivering the bytes \<open>hb\<close>) stores \<open>T\<close> itself under the generated handle, the hex
  encoding of \<open>hb\<close>, and a successful describe returns that handle as its ticket. Executing
  the handle on any later server state \<open>s2\<close> that still holds the entry hands to the backend
  no text but \<open>T\<close>: never the probe's rewritten text, and exactly \<open>T\<close> once the backend
  accepts the connection, the statement and the text.
\<close>

theorem handle_round_trip:
  assumes "db s = Some d"
    and "queries s2 (EncodeToString hb) =
           queries (server_after (GetFlightInfoStatement s (Inr hb) T)) (EncodeToString hb)"
  shows "queries (server_after (GetFlightInfoStatement s (Inr hb) T)) (EncodeToString hb) = Some T
    \<and> (\<forall>info. result (GetFlightInfoStatement s (Inr hb) T) = Inr info \<longrightarrow>
          ticket info = EncodeToString hb)
    \<and> set (prepared (calls (DoGetStatement s2 (EncodeToString hb)))) \<subseteq> {T}
    \<and> set (executed (calls (DoGetStatement s2 (EncodeToString hb)))) \<subseteq> {T}
    \<and> schemaQuery T \<notin> set (executed (calls (DoGetStatement s2 (EncodeToString hb))))
    \<and> (\<forall>d2. db s2 = Some d2 \<and> open_result d2 = None \<and> new_statement_result d2 = None
              \<and> set_sql_query_result d2 T = None \<longrightarrow>
          executed (calls (DoGetStatement s2 (EncodeToString hb))) = [T])"
proof -
  have stored:
    "queries (server_after (GetFlightInfoStatement s (Inr hb) T)) (EncodeToString hb) = Some T"
    using assms(1)
    by (simp add: GetFlightInfoStatement_def Let_def split: option.splits sum.splits)
  have tick: "\<forall>info. result (GetFlightInfoStatement s (Inr hb) T) = Inr info \<longrightarrow>
          ticket info = EncodeToString hb"
    using assms(1)
    by (auto simp add: GetFlightInfoStatement_def Let_def split: option.splits sum.splits)
  have look: "queries s2 (EncodeToString hb) = Some T"
    using assms(2) stored by simp
  have p: "set (prepared (calls (DoGetStatement s2 (EncodeToString hb)))) \<subseteq> {T}"
    using look by (simp add: DoGetStatement_def split: option.splits sum.splits)
  have e: "set (executed (calls (DoGetStatement s2 (EncodeToString hb)))) \<subseteq> {T}"
    using look by (simp add: DoGetStatement_def split: option.splits sum.splits)
  have n: "schemaQuery T \<notin> set (executed (calls (DoGetStatement s2 (EncodeToString hb))))"
    using e schemaQuery_neq [of T] by auto
  have r: "\<forall>d2. db s2 = Some d2 \<and> open_result d2 = None \<and> new_statement_result d2 = None
              \<and> set_sql_query_result d2 T = None \<longrightarrow>
          executed (calls (DoGetStatement s2 (EncodeToString hb))) = [T]"
    using look by (simp add: DoGetStatement_def split: option.splits sum.splits)
  from stored tick p e n r show ?thesis by blast
qed

theorem handle_round_trip_witness:
  "db sample_server = Some sample_db
   \<and> queries (server_after (GetFlightInfoStatement sample_server (Inr sample_bytes)
         ''SELECT name FROM T'')) (EncodeToString sample_bytes) = Some ''SELECT name FROM T''
   \<and> executed (calls (DoGetStatement
         (server_after (GetFlightInfoStatement sample_server (Inr sample_bytes)
            ''SELECT name FROM T''))
         (EncodeToString sample_bytes))) = [''SELECT name FROM T'']"
proof -
  have h1: "db sample_server = Some sample_db" by (simp add: sample_server_def)
  note t = handle_round_trip [OF h1 refl, of sample_bytes "''SELECT name FROM T''"]
  have d2: "db (server_after (GetFlightInfoStatement sample_server (Inr sample_bytes)
         ''SELECT name FROM T'')) = Some sample_db"
    using GetFlightInfoStatement_server
      [of sample_server "Inr sample_bytes" "''SELECT name FROM T''"] h1
    by auto
  have ok: "open_result sample_db = None \<and> new_statement_result sample_db = None
      \<and> set_sql_query_result sample_db ''SELECT name FROM T'' = None"
    by (simp add: sample_db_def)
  from t d2 ok h1 show ?thesis by blast
qed



text \<open>
  C6. For a handle absent from the registry, \<^verbatim>\<open>DoGetStatement\<close> returns the error
  \<^verbatim>\<open>unknown statement handle: <handle>\<close>, whose message is never that of the missing
  database, leaves the server as it was and makes no call to the backend: no connection
  is opened and nothing is executed.
\<close>

theorem unknown_handle_fails:
  assumes "queries s handle = None"
  shows "DoGetStatement s handle =
           (Inl (Errorf (''unknown statement handle: '' @ handle)), s, [])
       \<and> ''unknown statement handle: '' @ handle \<noteq> ''database is not initialized''"
  using assms by (simp add: DoGetStatement_def)

theorem unknown_handle_fails_witness:
  "queries sample_server ''unknown-handle-12345'' = None
   \<and> DoGetStatement sample_server ''unknown-handle-12345'' =
       (Inl (Errorf ''unknown statement handle: unknown-handle-12345''), sample_server, [])"
proof -
  have h: "queries sample_server ''unknown-handle-12345'' = None"
    by (simp add: sample_server_def)
  show ?thesis using h unknown_handle_fails [OF h] by simp
qed

text \<open>
  C3, as stated, fails. Describing \<^verbatim>\<open>SELECT * FROM missing_table\<close> against a backend
  that does not know the table returns the backend's error, and the handle, absent from
  the registry before the call, is registered afterwards.
\<close>

theorem failed_describe_registers_handle:
  "result (GetFlightInfoStatement sample_server (Inr sample_bytes) ''SELECT * FROM missing_table'')
     = Inl (AdbcError ''no such table'')
   \<and> queries sample_server (EncodeToString sample_bytes) = None
   \<and> queries (server_after (GetFlightInfoStatement sample_server (Inr sample_bytes)
        ''SELECT * FROM missing_table'')) (EncodeToString sample_bytes)
     = Some ''SELECT * FROM missing_table''"
  by (simp add: GetFlightInfoStatement_def Let_def sample_server_def sample_db_def
      sample_execute_def schemaQuery_def)

text \<open>
  C3, amended. When a describe call with a database configured fails, the error is the
  backend's as it is: the message of the first backend call that failed, among opening
  the connection, creating the statement, setting the rewritten text and executing it.
  The schema-only endpoint fails with the same error, and the registry is the old one
  with the new handle bound to the query text: the entry is written before the probe runs
  and stays.
\<close>

theorem failed_describe_keeps_entry:
  assumes "db s = Some d"
    and "result (GetFlightInfoStatement s (Inr hb) q) = Inl e"
  shows "(\<exists>msg. e = AdbcError msg \<and>
            (open_result d = Some msg
             \<or> (open_result d = None \<and> new_statement_result d = Some msg)
             \<or> (open_result d = None \<and> new_statement_result d = None
                 \<and> set_sql_query_result d (schemaQuery q) = Some msg)
             \<or> (open_result d = None \<and> new_statement_result d = None
                 \<and> set_sql_query_result d (schemaQuery q) = None
                 \<and> execute_query_result d (schemaQuery q) = Inl msg)))
    \<and> result (GetSchemaStatement s q) = Inl e
    \<and> server_after (GetFlightInfoStatement s (Inr hb) q) =
        s\<lparr>queries := (queries s)(EncodeToString hb \<mapsto> q)\<rparr>"
  using assms
  by (auto simp add: GetFlightInfoStatement_def GetSchemaStatement_def Let_def
      split: option.splits sum.splits)

theorem failed_describe_keeps_entry_witness:
  "db sample_server = Some sample_db
   \<and> execute_query_result sample_db (schemaQuery ''SELECT * FROM missing_table'') =
        Inl ''no such table''
   \<and> result (GetFlightInfoStatement sample_server (Inr sample_bytes)
        ''SELECT * FROM missing_table'') = Inl (AdbcError ''no such table'')
   \<and> server_after (GetFlightInfoStatement sample_server (Inr sample_bytes)
        ''SELECT * FROM missing_table'') =
      sample_server\<lparr>queries := (queries sample_server)
        (EncodeToString sample_bytes \<mapsto> ''SELECT * FROM missing_table'')\<rparr>"
proof -
  have h1: "db sample_server = Some sample_db" by (simp add: sample_server_def)
  have h2: "result (GetFlightInfoStatement sample_server (Inr sample_bytes)
        ''SELECT * FROM missing_table'') = Inl (AdbcError ''no such table'')"
    by (simp add: GetFlightInfoStatement_def Let_def sample_server_def sample_db_def
      sample_execute_def schemaQuery_def)
  have h3: "execute_query_result sample_db (schemaQuery ''SELECT * FROM missing_table'') =
        Inl ''no such table''"
    by (simp add: sample_db_def sample_execute_def schemaQuery_def)
  show ?thesis using h1 h2 h3 failed_describe_keeps_entry [OF h1 h2] by simp
qed

text \<open>
  C4, as stated, fails. Against a backend that types a column from the rows it reads,
  the probe of \<^verbatim>\<open>SELECT name FROM T\<close> succeeds and reports the column \<open>name\<close> with the
  default type, while executing the returned handle reports it as a string column.
\<close>

theorem probe_schema_differs:
  "map_sum id info_schema (result (GetFlightInfoStatement inferring_server (Inr sample_bytes)
       ''SELECT name FROM T'')) = Inr [(''name'', Int64)]
   \<and> result (GetSchemaStatement inferring_server ''SELECT name FROM T'') = Inr [(''name'', Int64)]
   \<and> map_sum id fst (result (DoGetStatement
        (server_after (GetFlightInfoStatement inferring_server (Inr sample_bytes)
           ''SELECT name FROM T'')) (EncodeToString sample_bytes)))
     = Inr [(''name'', Utf8)]"
  by (simp add: GetFlightInfoStatement_def GetSchemaStatement_def DoGetStatement_def Let_def
      inferring_server_def inferring_db_def inferring_execute_def schemaQuery_def)

text \<open>
  C4, amended. When describing \<open>Q\<close> succeeds and executing its handle succeeds, the
  described schema (also the one of the schema-only endpoint) is the schema the backend
  reports for the rewritten text, and the executed schema is the schema the backend
  reports for \<open>Q\<close> itself; the two are equal, field for field in order, whenever the
  backend reports the same schema for both texts.
\<close>

theorem probe_schema_is_backend_schema:
  assumes "db s = Some d"
    and "result (GetFlightInfoStatement s (Inr hb) Q) = Inr info"
    and "queries s2 (EncodeToString hb) = Some Q"
    and "db s2 = Some d2"
    and "result (DoGetStatement s2 (EncodeToString hb)) = Inr (sch, rdr)"
  shows "map_sum id reader_schema (execute_query_result d (schemaQuery Q)) = Inr (info_schema info)
    \<and> result (GetSchemaStatement s Q) = Inr (info_schema info)
    \<and> map_sum id reader_schema (execute_query_result d2 Q) = Inr sch
    \<and> (map_sum id reader_schema (execute_query_result d (schemaQuery Q)) =
         map_sum id reader_schema (execute_query_result d2 Q) \<longrightarrow> info_schema info = sch)"
proof -
  have a: "map_sum id reader_schema (execute_query_result d (schemaQuery Q)) = Inr (info_schema info)
    \<and> result (GetSchemaStatement s Q) = Inr (info_schema info)"
    using assms(1,2)
    by (auto simp add: GetFlightInfoStatement_def GetSchemaStatement_def Let_def
        split: option.splits sum.splits)
  have b: "map_sum id reader_schema (execute_query_result d2 Q) = Inr sch"
    using assms(3,4,5)
    by (auto simp add: DoGetStatement_def split: option.splits sum.splits)
  from a b show ?thesis by simp
qed

theorem probe_schema_is_backend_schema_witness:
  "db sample_server = Some sample_db
   \<and> map_sum id info_schema (result (GetFlightInfoStatement sample_server (Inr sample_bytes)
       ''SELECT name FROM T'')) = Inr [(''name'', Utf8)]
   \<and> map_sum id fst (result (DoGetStatement
        (server_after (GetFlightInfoStatement sample_server (Inr sample_bytes)
           ''SELECT name FROM T'')) (EncodeToString sample_bytes)))
     = Inr [(''name'', Utf8)]"
proof -
  let ?Q = "''SELECT name FROM T''"
  let ?s2 = "server_after (GetFlightInfoStatement sample_server (Inr sample_bytes) ?Q)"
  let ?info = "\<lparr>ticket = EncodeToString sample_bytes, info_schema = [(''name'', Utf8)]\<rparr>"
  let ?rdr = "\<lparr>reader_schema = [(''name'', Utf8)],
                reader_batches = [people_batch1, people_batch2]\<rparr>"
  have h1: "db sample_server = Some sample_db" by (simp add: sample_server_def)
  have h2: "result (GetFlightInfoStatement sample_server (Inr sample_bytes) ?Q) = Inr ?info"
    by (simp add: GetFlightInfoStatement_def Let_def sample_server_def sample_db_def
      sample_execute_def schemaQuery_def)
  have h3: "queries ?s2 (EncodeToString sample_bytes) = Some ?Q"
    by (simp add: GetFlightInfoStatement_def Let_def sample_server_def sample_db_def
      sample_execute_def schemaQuery_def)
  have h4: "db ?s2 = Some sample_db"
    by (simp add: GetFlightInfoStatement_def Let_def sample_server_def sample_db_def
      sample_execute_def schemaQuery_def)
  have h5: "result (DoGetStatement ?s2 (EncodeToString sample_bytes)) =
      Inr ([(''name'', Utf8)], ?rdr)"
    using h3 h4 by (simp add: DoGetStatement_def sample_db_def sample_execute_def)
  show ?thesis
    using h1 h2 h5 probe_schema_is_backend_schema [OF h1 h2 h3 h4 h5] by simp
qed

text \<open>
  C9, as stated, fails. Executing a registered statement whose result has two batches,
  with a consumer that receives one batch and stops, leaves the goroutine waiting in its
  second send: counting the calls of the function and of the goroutine together, the
  reader is released zero times.
\<close>

theorem early_stop_leaves_reader:
  "map_sum id fst (result (DoGetStatement registered_server ''test-handle'')) = Inr [(''name'', Utf8)]
   \<and> stream_batches (DoGetStatement registered_server ''test-handle'') =
        [people_batch1, people_batch2]
   \<and> delivered (goroutine statement_chunk
        (stream_batches (DoGetStatement registered_server ''test-handle'')) 1) = [people_batch1]
   \<and> count_list (calls (DoGetStatement registered_server ''test-handle'') @
        goroutine_calls (goroutine statement_chunk
          (stream_batches (DoGetStatement registered_server ''test-handle'')) 1)) ReaderRelease = 0"
  by (simp add: DoGetStatement_def registered_server_def sample_db_def sample_execute_def
      stream_batches_def statement_chunk_def)

text \<open>
  C9, amended. For every statement that \<^verbatim>\<open>DoGetStatement\<close> executes successfully, the
  statement and the connection are each closed exactly once, by the deferred calls that
  run when \<^verbatim>\<open>DoGetStatement\<close> returns, which is before the consumer holds the channel; the
  goroutine closes neither. The reader is released by the goroutine only: exactly once,
  and the channel closed, when the consumer receives at least as many batches as the
  result has, and not at all when it receives fewer, in which case the goroutine stays
  blocked in a send. In both cases the consumer has received the first \<open>k\<close> batches in
  order.
\<close>

theorem statement_release_counts:
  assumes "result (DoGetStatement s h) = Inr (sch, rdr)"
  shows "count_list (calls (DoGetStatement s h)) StmtClose = 1
    \<and> count_list (calls (DoGetStatement s h)) ConnClose = 1
    \<and> count_list (calls (DoGetStatement s h)) ReaderRelease = 0
    \<and> count_list (goroutine_calls (goroutine statement_chunk (reader_batches rdr) k)) StmtClose = 0
    \<and> count_list (goroutine_calls (goroutine statement_chunk (reader_batches rdr) k)) ConnClose = 0
    \<and> count_list (goroutine_calls (goroutine statement_chunk (reader_batches rdr) k)) ReaderRelease
        = (if length (reader_batches rdr) \<le> k then 1 else 0)
    \<and> delivered (goroutine statement_chunk (reader_batches rdr) k) = take k (reader_batches rdr)
    \<and> ended (goroutine statement_chunk (reader_batches rdr) k)
        = (if length (reader_batches rdr) \<le> k then ChannelClosed else BlockedOnSend)"
proof -
  have a: "count_list (calls (DoGetStatement s h)) StmtClose = 1
    \<and> count_list (calls (DoGetStatement s h)) ConnClose = 1
    \<and> count_list (calls (DoGetStatement s h)) ReaderRelease = 0"
    using assms by (auto simp add: DoGetStatement_def split: option.splits sum.splits)
  have b: "count_list (goroutine_calls (goroutine statement_chunk (reader_batches rdr) k)) StmtClose = 0
    \<and> count_list (goroutine_calls (goroutine statement_chunk (reader_batches rdr) k)) ConnClose = 0
    \<and> count_list (goroutine_calls (goroutine statement_chunk (reader_batches rdr) k)) ReaderRelease
        = (if length (reader_batches rdr) \<le> k then 1 else 0)"
    by (simp add: goroutine_statement_calls count_list_replicate_neq)
  from a b show ?thesis
    by (simp add: goroutine_statement_delivered goroutine_statement_ended)
qed

theorem statement_release_counts_witness:
  "result (DoGetStatement registered_server ''test-handle'') =
     Inr ([(''name'', Utf8)],
          \<lparr>reader_schema = [(''name'', Utf8)], reader_batches = [people_batch1, people_batch2]\<rparr>)
   \<and> count_list (calls (DoGetStatement registered_server ''test-handle'')) StmtClose = 1
   \<and> count_list (goroutine_calls (goroutine statement_chunk [people_batch1, people_batch2] 2))
        ReaderRelease = 1
   \<and> count_list (goroutine_calls (goroutine statement_chunk [people_batch1, people_batch2] 1))
        ReaderRelease = 0"
proof -
  have h: "result (DoGetStatement registered_server ''test-handle'') =
     Inr ([(''name'', Utf8)],
          \<lparr>reader_schema = [(''name'', Utf8)], reader_batches = [people_batch1, people_batch2]\<rparr>)"
    by (simp add: DoGetStatement_def registered_server_def sample_db_def sample_execute_def)
  show ?thesis
    using h statement_release_counts [OF h, of 2] statement_release_counts [OF h, of 1]
    by simp
qed

text \<open>
  C10. \<^verbatim>\<open>GetSchemaStatement\<close> returns the server as it received it, and so does every
  operation other than \<^verbatim>\<open>GetFlightInfoStatement\<close>; \<^verbatim>\<open>GetFlightInfoStatement\<close> keeps every
  handle that was registered and leaves the database pointer alone.
\<close>

theorem registry_frame:
  "server_after (GetSchemaStatement s q) = s
   \<and> server_after (DoGetStatement s h) = s
   \<and> server_after (DoGetCatalogs s) = s
   \<and> server_after (DoGetDBSchemas s a) = s
   \<and> server_after (DoGetTables s a) = s
   \<and> server_after (GetFlightInfoCatalogs s c) = s
   \<and> server_after (GetFlightInfoSchemas s c) = s
   \<and> server_after (GetFlightInfoTables s c) = s
   \<and> dom (queries s) \<subseteq> dom (queries (server_after (GetFlightInfoStatement s rnd q)))
   \<and> db (server_after (GetFlightInfoStatement s rnd q)) = db s"
proof -
  have "dom (queries s) \<subseteq> dom (queries (server_after (GetFlightInfoStatement s rnd q)))"
    using GetFlightInfoStatement_server [of s rnd q] by auto
  moreover have "db (server_after (GetFlightInfoStatement s rnd q)) = db s"
    using GetFlightInfoStatement_server [of s rnd q] by auto
  ultimately show ?thesis
    by (simp add: GetSchemaStatement_server DoGetStatement_server DoGetCatalogs_server
        DoGetDBSchemas_server DoGetTables_server GetFlightInfoCatalogs_def
        GetFlightInfoSchemas_def GetFlightInfoTables_def)
qed

section \<open>Flattening at table depth\<close>

text \<open>
  On an unsliced introspection batch whose offsets obey the invariant of the object
  tree, the batch that \<^verbatim>\<open>DoGetTables\<close> builds and sends has the four columns of
  \<open>flat_rows\<close> and its length as row count. The number of rows is the sum, over the
  catalogs \<open>i\<close> and the schemas \<open>j\<close> in the range of \<open>i\<close>, of the number of tables in the
  range of \<open>j\<close>; and every row carries the name of a catalog \<open>i\<close>, the name of a schema \<open>j\<close>
  in the range of \<open>i\<close>, and a table in the range of \<open>j\<close>.
\<close>

lemma unsliced_tables_flattening:
  assumes "wf_objects cats so sn to tn tt"
  shows "tables_chunk (objects_batch cats so sn to tn tt) =
     Inr \<lparr>batch_schema = Tables,
          columns = [NewArray (map (\<lambda>(c, s, t, ty). c) (flat_rows cats so sn to tn tt)),
                     NewArray (map (\<lambda>(c, s, t, ty). s) (flat_rows cats so sn to tn tt)),
                     NewArray (map (\<lambda>(c, s, t, ty). t) (flat_rows cats so sn to tn tt)),
                     NewArray (map (\<lambda>(c, s, t, ty). ty) (flat_rows cats so sn to tn tt))],
          num_rows = int (length (flat_rows cats so sn to tn tt))\<rparr>
   \<and> delivered (goroutine tables_chunk [objects_batch cats so sn to tn tt] (Suc k)) =
       [\<lparr>batch_schema = Tables,
          columns = [NewArray (map (\<lambda>(c, s, t, ty). c) (flat_rows cats so sn to tn tt)),
                     NewArray (map (\<lambda>(c, s, t, ty). s) (flat_rows cats so sn to tn tt)),
                     NewArray (map (\<lambda>(c, s, t, ty). t) (flat_rows cats so sn to tn tt)),
                     NewArray (map (\<lambda>(c, s, t, ty). ty) (flat_rows cats so sn to tn tt))],
          num_rows = int (length (flat_rows cats so sn to tn tt))\<rparr>]
   \<and> length (flat_rows cats so sn to tn tt) =
       (\<Sum>i\<leftarrow>[0 ..< length cats]. \<Sum>j\<leftarrow>schemas_of so i. nat (to ! (j + 1)) - nat (to ! j))
   \<and> (\<forall>row \<in> set (flat_rows cats so sn to tn tt).
         \<exists>i < length cats. \<exists>j \<in> set (schemas_of so i).
           fst row = cats ! i \<and> fst (snd row) = sn ! j \<and> snd (snd row) \<in> set (tables_of to tn tt j))"
proof -
  note c = tables_chunk_flat_rows [OF assms]
  have d: "delivered (goroutine tables_chunk [objects_batch cats so sn to tn tt] (Suc k)) =
       [\<lparr>batch_schema = Tables,
          columns = [NewArray (map (\<lambda>(c, s, t, ty). c) (flat_rows cats so sn to tn tt)),
                     NewArray (map (\<lambda>(c, s, t, ty). s) (flat_rows cats so sn to tn tt)),
                     NewArray (map (\<lambda>(c, s, t, ty). t) (flat_rows cats so sn to tn tt)),
                     NewArray (map (\<lambda>(c, s, t, ty). ty) (flat_rows cats so sn to tn tt))],
          num_rows = int (length (flat_rows cats so sn to tn tt))\<rparr>]"
    by (simp add: c)
  have n: "length (flat_rows cats so sn to tn tt) =
       (\<Sum>i\<leftarrow>[0 ..< length cats]. \<Sum>j\<leftarrow>schemas_of so i. nat (to ! (j + 1)) - nat (to ! j))"
    by (simp add: length_flat_rows length_tables_of)
  have a: "\<forall>row \<in> set (flat_rows cats so sn to tn tt).
         \<exists>i < length cats. \<exists>j \<in> set (schemas_of so i).
           fst row = cats ! i \<and> fst (snd row) = sn ! j \<and> snd (snd row) \<in> set (tables_of to tn tt j)"
    by (auto simp add: flat_rows_def catalog_rows_def)
  from c d n a show ?thesis by blast
qed

text \<open>
  C2. The sample tree has the catalogs \<open>main\<close> (schemas \<open>public\<close>, with the tables \<open>users\<close>
  and \<open>orders\<close>, and \<open>audit\<close>, with none) and \<open>temp\<close> (schema \<open>scratch\<close> with the table
  \<open>tmp1\<close>). From the whole batch \<^verbatim>\<open>DoGetTables\<close> builds its three rows. From the batch cut
  to the catalog \<open>temp\<close>, whose tree has the one row of \<open>temp\<close>, \<open>scratch\<close> and \<open>tmp1\<close>, it
  builds two rows that pair \<open>temp\<close> with the schema and the tables of \<open>main\<close>: the catalog
  name is read relative to the slice, the child range from the start of the offsets
  buffer.
\<close>

theorem sliced_batch_rows:
  "tables_chunk sample_objects =
     Inr \<lparr>batch_schema = Tables,
          columns = [NewArray [''main'', ''main'', ''temp''],
                     NewArray [''public'', ''public'', ''scratch''],
                     NewArray [''users'', ''orders'', ''tmp1''],
                     NewArray [''table'', ''view'', ''table'']],
          num_rows = 3\<rparr>
   \<and> NewSlice sample_objects 1 2 = Inr sliced_objects
   \<and> catalog_rows [''main'', ''temp''] [0, 2, 3] [''public'', ''audit'', ''scratch'']
        [0, 2, 2, 3] [''users'', ''orders'', ''tmp1''] [''table'', ''view'', ''table''] 1 =
      [(''temp'', ''scratch'', ''tmp1'', ''table'')]
   \<and> tables_chunk sliced_objects =
     Inr \<lparr>batch_schema = Tables,
          columns = [NewArray [''temp'', ''temp''],
                     NewArray [''public'', ''public''],
                     NewArray [''users'', ''orders''],
                     NewArray [''table'', ''view'']],
          num_rows = 2\<rparr>"
proof -
  have a: "tables_chunk sample_objects =
     Inr \<lparr>batch_schema = Tables,
          columns = [NewArray [''main'', ''main'', ''temp''],
                     NewArray [''public'', ''public'', ''scratch''],
                     NewArray [''users'', ''orders'', ''tmp1''],
                     NewArray [''table'', ''view'', ''table'']],
          num_rows = 3\<rparr>"
    by code_simp
  have b: "NewSlice sample_objects 1 2 = Inr sliced_objects"
    by code_simp
  have c: "catalog_rows [''main'', ''temp''] [0, 2, 3] [''public'', ''audit'', ''scratch'']
        [0, 2, 2, 3] [''users'', ''orders'', ''tmp1''] [''table'', ''view'', ''table''] 1 =
      [(''temp'', ''scratch'', ''tmp1'', ''table'')]"
    by code_simp
  have d: "tables_chunk sliced_objects =
     Inr \<lparr>batch_schema = Tables,
          columns = [NewArray [''temp'', ''temp''],
                     NewArray [''public'', ''public''],
                     NewArray [''users'', ''orders''],
                     NewArray [''table'', ''view'']],
          num_rows = 2\<rparr>"
    by code_simp
  from a b c d show ?thesis by simp
qed

section \<open>Metadata operations without a database, and the catalog batch\<close>

text \<open>
  C8. With a nil database pointer \<^verbatim>\<open>DoGetDBSchemas\<close> and \<^verbatim>\<open>DoGetTables\<close> dereference
  the pointer and panic, while \<^verbatim>\<open>DoGetCatalogs\<close>, \<^verbatim>\<open>GetFlightInfoStatement\<close> and
  \<^verbatim>\<open>GetSchemaStatement\<close> return the error \<^verbatim>\<open>database is not initialized\<close>.
\<close>

theorem nil_database_dereferenced:
  "result (DoGetDBSchemas (s\<lparr>db := None\<rparr>) cmd) = Inl (Panic NilPointerDereference)
   \<and> result (DoGetTables (s\<lparr>db := None\<rparr>) cmd) = Inl (Panic NilPointerDereference)
   \<and> result (DoGetCatalogs (s\<lparr>db := None\<rparr>)) = Inl (Errorf ''database is not initialized'')
   \<and> result (GetFlightInfoStatement (s\<lparr>db := None\<rparr>) rnd q) =
        Inl (Errorf ''database is not initialized'')
   \<and> result (GetSchemaStatement (s\<lparr>db := None\<rparr>) q) =
        Inl (Errorf ''database is not initialized'')"
  by (simp add: DoGetDBSchemas_def DoGetTables_def DoGetCatalogs_def
      GetFlightInfoStatement_def GetSchemaStatement_def)

text \<open>
  C7. For an introspection batch with the two catalogs \<open>main\<close> and \<open>temp\<close>, the batch that
  \<^verbatim>\<open>DoGetCatalogs\<close> emits carries the column of two names and the row count 0, while the
  batch that \<^verbatim>\<open>DoGetDBSchemas\<close> builds from the same tree has three values in each column
  and the row count 3.
\<close>

theorem catalogs_batch_row_count:
  "result (DoGetCatalogs sample_server) =
     Inr (Catalogs, [\<lparr>batch_schema = Catalogs, columns = [StringArray 0 2 [''main'', ''temp'']],
                      num_rows = 0\<rparr>])
   \<and> db_schemas_chunk sample_objects =
     Inr \<lparr>batch_schema = DBSchemas,
          columns = [NewArray [''main'', ''main'', ''temp''],
                     NewArray [''public'', ''audit'', ''scratch'']],
          num_rows = 3\<rparr>"
proof -
  have a: "result (DoGetCatalogs sample_server) =
     Inr (Catalogs, [\<lparr>batch_schema = Catalogs, columns = [StringArray 0 2 [''main'', ''temp'']],
                      num_rows = 0\<rparr>])"
    by (simp add: DoGetCatalogs_def sample_server_def sample_db_def sample_get_objects_def
      sample_objects_def objects_batch_def Column_def index_def NewRecordBatch_def
      validate_def Catalogs_def nil_args_def)
  have b: "db_schemas_chunk sample_objects =
     Inr \<lparr>batch_schema = DBSchemas,
          columns = [NewArray [''main'', ''main'', ''temp''],
                     NewArray [''public'', ''audit'', ''scratch'']],
          num_rows = 3\<rparr>"
    by code_simp
  from a b show ?thesis by simp
qed

end
